theory Spec2Isabelle
  imports Complex_Main "HOL-Library.Char_ord" "HOL-Library.List_Lexorder"
begin

section \<open>Data model (core/models.py)\<close>

text \<open>
  Every Django model the ledger logic touches is a record holding the columns that logic
  reads or writes. Primary keys and foreign keys are natural numbers, dates are day
  numbers (\<open>int\<close>), \<open>CharField\<close>s are strings, nullable columns are options.
  \<open>Decimal\<close> amounts with two decimal places are integers counting hundredths, so
  that sums and the product with the integer \<open>duration\<close> are exact, as they are for
  Python's \<open>Decimal\<close>. A \<open>DecimalField(max_digits=10, decimal_places=2)\<close> holds
  the values of fewer than eleven digits; writing any other value fails (see
  \<open>FinanceRecord_Model_save\<close>).
\<close>

record Semester =
  registration_start :: int
  registration_end :: int
  add_drop_deadline :: int

record Course =
  code :: string
  credits :: int

record CoursePrerequisite =
  cp_course :: nat
  prerequisite :: nat
  is_mandatory :: bool
  minimum_grade :: "string option"

record CourseOffering =
  co_course :: nat
  co_semester :: nat
  capacity :: int
  enrolled :: int
  co_is_active :: bool

text \<open>
  A model instance carries its primary key: \<open>None\<close> for an instance that has not been
  saved yet (\<open>self.pk is None\<close>), \<open>Some k\<close> for a stored row.
\<close>

record Enrollment =
  e_pk :: "nat option"
  student :: nat
  course_offering :: nat
  grade :: string
  is_active :: bool
  status :: string
  credits_earned :: "int option"

record Program =
  duration :: int
  total_credits :: int
  tuition_fee :: int
  registration_fee :: int
  exam_fee :: int
  other_fees :: int

record ProgramCurriculum =
  pc_program :: nat
  pc_course :: nat

record ProgramEnrollment =
  pe_student :: nat
  pe_program :: nat

record FinanceRecord =
  fr_pk :: "nat option"
  fr_student :: nat
  fr_program :: "nat option"
  transaction_type :: string
  amount :: int
  balance_after :: int

text \<open>
  The database. Tables that the operations insert into or filter are lists of rows in
  insertion order; course offerings are a map from primary key to row, since they are
  fetched and written back by key. Semesters, courses and programs are only read through a
  foreign key, which the database keeps resolvable (\<open>on_delete=CASCADE\<close>), so they are
  total functions of the key.
\<close>

record database =
  semesters :: "nat \<Rightarrow> Semester"
  courses :: "nat \<Rightarrow> Course"
  course_prerequisites :: "CoursePrerequisite list"
  offerings :: "nat \<rightharpoonup> CourseOffering"
  enrollments :: "Enrollment list"
  programs :: "nat \<Rightarrow> Program"
  curriculum :: "ProgramCurriculum list"
  finance_records :: "FinanceRecord list"

text \<open>
  Errors. The views reject a request by flashing a message and redirecting; the error
  kinds are the names the specification gives to these rejections. \<open>Http404\<close>,
  \<open>DoesNotExist\<close>, \<open>IntegrityError\<close>, \<open>NameError\<close> and
  \<open>InvalidOperation\<close> (of Python's \<open>decimal\<close>) are the exceptions that escape the
  code.
\<close>

datatype error =
    Http404
  | DoesNotExist
  | RegistrationWindowClosed
  | CapacityExceeded
  | DuplicateEnrollment
  | MissingPrerequisite string
  | DeadlinePassed
  | IntegrityError
  | NameError
  | InvalidOperation

section \<open>CourseOffering and Enrollment (core/models.py)\<close>

definition available_seats :: "CourseOffering \<Rightarrow> int" where
  "available_seats offering = capacity offering - enrolled offering"

definition is_full :: "CourseOffering \<Rightarrow> bool" where
  "is_full offering = (enrolled offering \<ge> capacity offering)"

text \<open>
  \<open>unique_together = ['student', 'course_offering']\<close>: the database rejects a row
  whose pair is already held by another row, whatever that row's status or active flag.
\<close>

definition unique_together_violated :: "Enrollment list \<Rightarrow> Enrollment \<Rightarrow> bool" where
  "unique_together_violated rows e =
     list_ex (\<lambda>r. e_pk r \<noteq> e_pk e \<and> student r = student e
                  \<and> course_offering r = course_offering e) rows"

definition next_pk :: "Enrollment list \<Rightarrow> nat" where
  "next_pk rows = Suc (fold (\<lambda>r m. case e_pk r of None \<Rightarrow> m | Some k \<Rightarrow> max k m) rows 0)"

text \<open>
  \<open>models.Model.save\<close> for an Enrollment: an INSERT with a fresh key when the instance
  has none, otherwise an UPDATE of the row with that key (an INSERT if there is no such
  row); an \<open>IntegrityError\<close> when the uniqueness constraint is violated.
\<close>

definition Model_save :: "Enrollment list \<Rightarrow> Enrollment \<Rightarrow> error + Enrollment \<times> Enrollment list" where
  "Model_save rows e =
     (if unique_together_violated rows e then Inl IntegrityError
      else case e_pk e of
             None \<Rightarrow> (let e' = e\<lparr>e_pk := Some (next_pk rows)\<rparr> in Inr (e', rows @ [e']))
           | Some k \<Rightarrow>
               (if list_ex (\<lambda>r. e_pk r = Some k) rows
                then Inr (e, map (\<lambda>r. if e_pk r = Some k then e else r) rows)
                else Inr (e, rows @ [e])))"

text \<open>
  \<open>Enrollment.save\<close>: a new active enrollment first increments and saves the
  offering's counter, then the row itself is saved. The related offering
  (\<open>self.course_offering\<close>) is read from the database; within one request this is the
  instance the caller holds. The database is returned also when an exception escapes: it
  is the state the writes so far have produced.
\<close>

definition Enrollment_save :: "database \<Rightarrow> Enrollment \<Rightarrow> (error + Enrollment) \<times> database" where
  "Enrollment_save db e =
     (case (if is_active e \<and> e_pk e = None
            then (case offerings db (course_offering e) of
                    None \<Rightarrow> Inl DoesNotExist
                  | Some offering \<Rightarrow>
                      Inr (db\<lparr>offerings := (offerings db)(course_offering e \<mapsto>
                                 offering\<lparr>enrolled := enrolled offering + 1\<rparr>)\<rparr>))
            else Inr db) of
        Inl err \<Rightarrow> (Inl err, db)
      | Inr db1 \<Rightarrow>
          (case Model_save (enrollments db1) e of
             Inl err \<Rightarrow> (Inl err, db1)
           | Inr (e', rows) \<Rightarrow> (Inr e', db1\<lparr>enrollments := rows\<rparr>)))"

text \<open>
  \<open>Enrollment.objects.create(student=..., course_offering=..., status=...)\<close>: a new
  instance with the field defaults (no grade, active, no credits earned), saved.
\<close>

definition Enrollment_objects_create ::
    "database \<Rightarrow> nat \<Rightarrow> nat \<Rightarrow> string \<Rightarrow> (error + Enrollment) \<times> database" where
  "Enrollment_objects_create db user offering_id st =
     Enrollment_save db
       \<lparr>e_pk = None, student = user, course_offering = offering_id, grade = [],
        is_active = True, status = st, credits_earned = None\<rparr>"

section \<open>Registration and drop (core/views.py)\<close>

text \<open>\<open>get_object_or_404(CourseOffering, id=offering_id, is_active=True)\<close>\<close>

definition get_offering_or_404 :: "database \<Rightarrow> nat \<Rightarrow> error + CourseOffering" where
  "get_offering_or_404 db offering_id =
     (case offerings db offering_id of
        None \<Rightarrow> Inl Http404
      | Some offering \<Rightarrow> if co_is_active offering then Inr offering else Inl Http404)"

text \<open>\<open>get_object_or_404(Enrollment, id=enrollment_id, student=request.user)\<close>\<close>

definition get_enrollment_or_404 :: "database \<Rightarrow> nat \<Rightarrow> nat \<Rightarrow> error + Enrollment" where
  "get_enrollment_or_404 db enrollment_id user =
     (case find (\<lambda>e. e_pk e = Some enrollment_id \<and> student e = user) (enrollments db) of
        None \<Rightarrow> Inl Http404
      | Some e \<Rightarrow> Inr e)"

text \<open>\<open>offering.course.required_prerequisites.all()\<close>, in table order.\<close>

definition required_prerequisites :: "database \<Rightarrow> nat \<Rightarrow> CoursePrerequisite list" where
  "required_prerequisites db course_id =
     filter (\<lambda>p. cp_course p = course_id) (course_prerequisites db)"

text \<open>
  The queryset \<open>completed\<close> of the prerequisite loop: the student's completed, active
  enrollments in an offering of the prerequisite course (the lookup
  \<open>course_offering__course\<close> joins the offering), filtered by \<open>grade__lte\<close> when
  \<open>prereq.minimum_grade\<close> is truthy, that is neither \<open>None\<close> nor the empty string.
  \<open>grade__lte\<close> compares the strings, here by character code, lexicographically.
\<close>

definition completed :: "database \<Rightarrow> nat \<Rightarrow> CoursePrerequisite \<Rightarrow> Enrollment list" where
  "completed db user prereq =
     (let completed0 =
            filter (\<lambda>e. student e = user
                      \<and> map_option co_course (offerings db (course_offering e)) = Some (prerequisite prereq)
                      \<and> status e = ''completed''
                      \<and> is_active e) (enrollments db)
      in case minimum_grade prereq of
           None \<Rightarrow> completed0
         | Some g \<Rightarrow> if g = [] then completed0 else filter (\<lambda>e. grade e \<le> g) completed0)"

text \<open>
  The loop over the prerequisites: it returns at the first prerequisite that is mandatory
  and has no qualifying enrollment, with the message naming that course's code.
\<close>

fun check_prerequisites :: "database \<Rightarrow> nat \<Rightarrow> CoursePrerequisite list \<Rightarrow> error + unit" where
  "check_prerequisites db user [] = Inr ()"
| "check_prerequisites db user (prereq # rest) =
     (if completed db user prereq = [] \<and> is_mandatory prereq
      then Inl (MissingPrerequisite (code (courses db (prerequisite prereq))))
      else check_prerequisites db user rest)"

text \<open>
  \<open>register_course\<close>. \<open>today\<close> is \<open>timezone.now().date()\<close> and \<open>user\<close> is
  \<open>request.user\<close>. The result pairs the outcome with the database as the view leaves it.
\<close>

definition register_course :: "database \<Rightarrow> int \<Rightarrow> nat \<Rightarrow> nat \<Rightarrow> (error + unit) \<times> database" where
  "register_course db today user offering_id =
     (case get_offering_or_404 db offering_id of
        Inl err \<Rightarrow> (Inl err, db)
      | Inr offering \<Rightarrow>
          (let current_semester = semesters db (co_semester offering) in
           if today < registration_start current_semester then (Inl RegistrationWindowClosed, db)
           else if today > add_drop_deadline current_semester then (Inl RegistrationWindowClosed, db)
           else if is_full offering then (Inl CapacityExceeded, db)
           else if list_ex (\<lambda>e. student e = user \<and> course_offering e = offering_id \<and> is_active e)
                     (enrollments db)
             then (Inl DuplicateEnrollment, db)
           else case check_prerequisites db user (required_prerequisites db (co_course offering)) of
                  Inl err \<Rightarrow> (Inl err, db)
                | Inr _ \<Rightarrow>
                    (case Enrollment_objects_create db user offering_id ''registered'' of
                       (Inl err, db') \<Rightarrow> (Inl err, db')
                     | (Inr _, db') \<Rightarrow> (Inr (), db'))))"

text \<open>
  \<open>drop_course\<close>. The offering instance loaded for the deadline check
  (\<open>enrollment.course_offering\<close>) is the one decremented and saved at the end.
\<close>

definition drop_course :: "database \<Rightarrow> int \<Rightarrow> nat \<Rightarrow> nat \<Rightarrow> (error + unit) \<times> database" where
  "drop_course db today user enrollment_id =
     (case get_enrollment_or_404 db enrollment_id user of
        Inl err \<Rightarrow> (Inl err, db)
      | Inr enrollment \<Rightarrow>
          (case offerings db (course_offering enrollment) of
             None \<Rightarrow> (Inl DoesNotExist, db)
           | Some offering \<Rightarrow>
               (let current_semester = semesters db (co_semester offering) in
                if today > add_drop_deadline current_semester then (Inl DeadlinePassed, db)
                else case Enrollment_save db (enrollment\<lparr>is_active := False, status := ''withdrawn''\<rparr>) of
                       (Inl err, db1) \<Rightarrow> (Inl err, db1)
                     | (Inr _, db1) \<Rightarrow>
                         (Inr (), db1\<lparr>offerings := (offerings db1)(course_offering enrollment \<mapsto>
                                        offering\<lparr>enrolled := enrolled offering - 1\<rparr>)\<rparr>))))"

section \<open>Program progress (core/models.py)\<close>

text \<open>
  \<open>ProgramEnrollment.credits_completed\<close>. The queryset joins each enrollment with its
  offering (\<open>course_offering__course__in\<close>), keeps the student's rows with status
  \<open>completed\<close> whose course is among the courses of the program's curriculum, and the
  sum takes \<open>enrollment.credits_earned or enrollment.course_offering.course.credits\<close>:
  Python's \<open>or\<close> falls through to the course's credits when \<open>credits_earned\<close> is
  \<open>None\<close> and also when it is \<open>0\<close>.
\<close>

definition completed_enrollments :: "database \<Rightarrow> ProgramEnrollment \<Rightarrow> (Enrollment \<times> CourseOffering) list" where
  "completed_enrollments db self =
     List.map_filter
       (\<lambda>e. case offerings db (course_offering e) of
               None \<Rightarrow> None
             | Some offering \<Rightarrow>
                 if student e = pe_student self
                    \<and> co_course offering \<in> set (map pc_course
                          (filter (\<lambda>c. pc_program c = pe_program self) (curriculum db)))
                    \<and> status e = ''completed''
                 then Some (e, offering) else None)
       (enrollments db)"

definition credits_completed :: "database \<Rightarrow> ProgramEnrollment \<Rightarrow> int" where
  "credits_completed db self =
     sum_list (map (\<lambda>(enrollment, offering).
                      case credits_earned enrollment of
                        None \<Rightarrow> credits (courses db (co_course offering))
                      | Some n \<Rightarrow> if n \<noteq> 0 then n
                                  else credits (courses db (co_course offering)))
                   (completed_enrollments db self))"

text \<open>
  \<open>ProgramEnrollment.progress_percentage\<close> returns the integer \<open>0\<close> or a float. The
  float is computed by Python's true division of two integers and a float multiplication
  by \<open>100\<close>; both operations are parameters of the model (\<open>truediv\<close>, \<open>mul\<close>), so
  nothing is assumed about their rounding.
\<close>

datatype 'f number = PyInt int | PyFloat 'f

definition progress_percentage ::
    "(int \<Rightarrow> int \<Rightarrow> 'f) \<Rightarrow> ('f \<Rightarrow> int \<Rightarrow> 'f) \<Rightarrow> database \<Rightarrow> ProgramEnrollment \<Rightarrow> 'f number" where
  "progress_percentage truediv mul db self =
     (if total_credits (programs db (pe_program self)) > 0
      then PyFloat (mul (truediv (credits_completed db self)
                                 (total_credits (programs db (pe_program self)))) 100)
      else PyInt 0)"

text \<open>
  The specification's \<open>completedCredits\<close>, in its own words: over the student's
  enrollments with status completed whose course appears in the program's curriculum, the
  sum of \<open>credits_earned\<close> when present, else of the course's static credit value.
\<close>

definition enrollment_course :: "database \<Rightarrow> Enrollment \<Rightarrow> nat option" where
  "enrollment_course db e = map_option co_course (offerings db (course_offering e))"

definition counts_towards :: "database \<Rightarrow> ProgramEnrollment \<Rightarrow> Enrollment \<Rightarrow> bool" where
  "counts_towards db pe e =
     (student e = pe_student pe \<and> status e = ''completed''
      \<and> (case enrollment_course db e of
            None \<Rightarrow> False
          | Some c \<Rightarrow> list_ex (\<lambda>row. pc_program row = pe_program pe \<and> pc_course row = c)
                        (curriculum db)))"

definition completedCredits :: "database \<Rightarrow> ProgramEnrollment \<Rightarrow> int" where
  "completedCredits db pe =
     (\<Sum>e \<leftarrow> filter (counts_towards db pe) (enrollments db).
        case credits_earned e of
          Some n \<Rightarrow> n
        | None \<Rightarrow> (case enrollment_course db e of
                     Some c \<Rightarrow> credits (courses db c)
                   | None \<Rightarrow> 0))"

section \<open>Finance ledger (core/models.py)\<close>

definition total_fee_per_semester :: "Program \<Rightarrow> int" where
  "total_fee_per_semester self = tuition_fee self + exam_fee self + other_fees self"

definition total_program_fee :: "Program \<Rightarrow> int" where
  "total_program_fee self = (total_fee_per_semester self * duration self) + registration_fee self"

definition next_finance_pk :: "FinanceRecord list \<Rightarrow> nat" where
  "next_finance_pk rows = Suc (fold (\<lambda>r m. case fr_pk r of None \<Rightarrow> m | Some k \<Rightarrow> max k m) rows 0)"

text \<open>
  What a \<open>DecimalField(max_digits=10, decimal_places=2)\<close> can be written with: the
  field quantizes the value in a decimal context of precision 10, which raises
  \<open>decimal.InvalidOperation\<close> for a value of more than ten digits, that is, in
  hundredths, of magnitude \<open>10 ^ 10\<close> or more.
\<close>

definition max_digits_ok :: "int \<Rightarrow> bool" where
  "max_digits_ok x = (\<bar>x\<bar> < 10 ^ 10)"

text \<open>
  \<open>models.Model.save\<close> for a FinanceRecord: the decimal columns \<open>amount\<close> and
  \<open>balance_after\<close> are prepared for the database first, and the write fails when one
  of them does not fit; then an INSERT with a fresh key or an UPDATE by key. The table has
  no uniqueness constraint.
\<close>

definition FinanceRecord_Model_save ::
    "FinanceRecord list \<Rightarrow> FinanceRecord \<Rightarrow> error + FinanceRecord \<times> FinanceRecord list" where
  "FinanceRecord_Model_save rows r =
     (if \<not> max_digits_ok (amount r) \<or> \<not> max_digits_ok (balance_after r)
      then Inl InvalidOperation
      else case fr_pk r of
        None \<Rightarrow> (let r' = r\<lparr>fr_pk := Some (next_finance_pk rows)\<rparr> in Inr (r', rows @ [r']))
      | Some k \<Rightarrow>
          (if list_ex (\<lambda>x. fr_pk x = Some k) rows
           then Inr (r, map (\<lambda>x. if fr_pk x = Some k then r else x) rows)
           else Inr (r, rows @ [r])))"

text \<open>
  \<open>FinanceRecord.save\<close>. With no program the conditional expression evaluates
  \<open>Decimal('0.00')\<close>, and the module never imports \<open>Decimal\<close>: a \<open>NameError\<close>,
  raised on the first line. A Program instance is truthy, so a record with a program
  takes the other arm. The stored rows of the same student and program, without the
  record itself, are summed with their sign; then the record's own amount is added for
  \<open>payment\<close> and \<open>refund\<close>, subtracted for \<open>fee\<close> and \<open>adjustment\<close>, and left
  out for any other type. The balance is stored by \<open>super().save\<close>, which can fail on
  the size of a decimal column.
\<close>

definition FinanceRecord_save :: "database \<Rightarrow> FinanceRecord \<Rightarrow> error + FinanceRecord \<times> database" where
  "FinanceRecord_save db self =
     (case fr_program self of
        None \<Rightarrow> Inl NameError
      | Some program \<Rightarrow>
          (let program_total_fee = total_program_fee (programs db program);
               previous_payments =
                 filter (\<lambda>r. fr_student r = fr_student self \<and> fr_program r = fr_program self
                            \<and> fr_pk r \<noteq> fr_pk self) (finance_records db);
               total_paid0 =
                 sum_list (map (\<lambda>r. if transaction_type r = ''payment'' \<or> transaction_type r = ''refund''
                                     then amount r else - amount r) previous_payments);
               total_paid =
                 (if transaction_type self = ''payment'' \<or> transaction_type self = ''refund''
                  then total_paid0 + amount self
                  else if transaction_type self = ''fee'' \<or> transaction_type self = ''adjustment''
                  then total_paid0 - amount self
                  else total_paid0);
               self1 = self\<lparr>balance_after := program_total_fee - total_paid\<rparr>
           in case FinanceRecord_Model_save (finance_records db) self1 of
                Inl err \<Rightarrow> Inl err
              | Inr (self2, rows) \<Rightarrow> Inr (self2, db\<lparr>finance_records := rows\<rparr>)))"

text \<open>
  Appending transactions in sequence: each one is a new instance (no primary key yet)
  that is saved; the first exception ends the run.
\<close>

fun append_transactions :: "database \<Rightarrow> FinanceRecord list \<Rightarrow> error + database" where
  "append_transactions db [] = Inr db"
| "append_transactions db (r # rs) =
     (case FinanceRecord_save db (r\<lparr>fr_pk := None\<rparr>) of
        Inl err \<Rightarrow> Inl err
      | Inr (_, db') \<Rightarrow> append_transactions db' rs)"

text \<open>
  The specification's sign convention: payments and refunds add to the paid total, fees
  and adjustments subtract from it.
\<close>

definition signed_amount :: "FinanceRecord \<Rightarrow> int" where
  "signed_amount r =
     (if transaction_type r \<in> {''payment'', ''refund''} then amount r
      else if transaction_type r \<in> {''fee'', ''adjustment''} then - amount r
      else 0)"

definition TRANSACTION_TYPES :: "string list" where
  "TRANSACTION_TYPES = [''fee'', ''payment'', ''refund'', ''adjustment'']"

text \<open>The records of one student and program, in insertion order.\<close>

definition ledger :: "database \<Rightarrow> nat \<Rightarrow> nat \<Rightarrow> FinanceRecord list" where
  "ledger db s p = filter (\<lambda>r. fr_student r = s \<and> fr_program r = Some p) (finance_records db)"

text \<open>The fields of a record that the caller supplies.\<close>

definition entry :: "FinanceRecord \<Rightarrow> nat \<times> nat option \<times> string \<times> int" where
  "entry r = (fr_student r, fr_program r, transaction_type r, amount r)"

text \<open>
  The ledger invariant: every stored row has a key and one of the four transaction types,
  and in every student's ledger for a program the balance of the row at position \<open>K\<close> is
  the program's total fee minus the signed sum of the rows up to and including it.
\<close>

definition ledger_ok :: "database \<Rightarrow> bool" where
  "ledger_ok db =
     (list_all (\<lambda>r. fr_pk r \<noteq> None \<and> transaction_type r \<in> set TRANSACTION_TYPES)
        (finance_records db)
      \<and> (\<forall>s p K. K < length (ledger db s p) \<longrightarrow>
            balance_after (ledger db s p ! K) =
              total_program_fee (programs db p)
                - sum_list (map signed_amount (take (Suc K) (ledger db s p)))))"

text \<open>
  The balance the specification expects for a transaction \<open>r\<close> that follows the
  transactions \<open>prior\<close>: the program's total fee minus the signed sum of the earlier
  transactions of the same student and program and of \<open>r\<close> itself.
\<close>

definition expected_balance :: "(nat \<Rightarrow> Program) \<Rightarrow> FinanceRecord list \<Rightarrow> FinanceRecord \<Rightarrow> int" where
  "expected_balance P prior r =
     (case fr_program r of
        None \<Rightarrow> 0
      | Some p \<Rightarrow>
          total_program_fee (P p)
            - (sum_list (map signed_amount
                  (filter (\<lambda>x. fr_student x = fr_student r \<and> fr_program x = fr_program r) prior))
               + signed_amount r))"

text \<open>
  Every amount of a sequence of transactions, and every balance expected along it, fits
  the decimal columns.
\<close>

fun amounts_fit :: "(nat \<Rightarrow> Program) \<Rightarrow> FinanceRecord list \<Rightarrow> FinanceRecord list \<Rightarrow> bool" where
  "amounts_fit P prior [] = True"
| "amounts_fit P prior (r # rs) =
     (max_digits_ok (amount r) \<and> max_digits_ok (expected_balance P prior r)
      \<and> amounts_fit P (prior @ [r]) rs)"

section \<open>Specification-level predicates\<close>

text \<open>
  A prerequisite is met, in the specification's words: the student has a completed, active
  enrollment in the prerequisite course, and, if a minimum grade is set, one whose grade
  string is at most the minimum grade in the lexicographic order.
\<close>

definition prerequisite_met :: "database \<Rightarrow> nat \<Rightarrow> CoursePrerequisite \<Rightarrow> bool" where
  "prerequisite_met db user p =
     list_ex (\<lambda>e. student e = user
                \<and> (case offerings db (course_offering e) of
                      None \<Rightarrow> False
                    | Some offering \<Rightarrow> co_course offering = prerequisite p)
                \<and> status e = ''completed'' \<and> is_active e
                \<and> (case minimum_grade p of
                      None \<Rightarrow> True
                    | Some g \<Rightarrow> g = [] \<or> grade e \<le> g))
             (enrollments db)"

text \<open>The row a successful registration inserts: active, registered, with a fresh key.\<close>

definition new_enrollment :: "database \<Rightarrow> nat \<Rightarrow> nat \<Rightarrow> string \<Rightarrow> Enrollment" where
  "new_enrollment db user offering_id st =
     \<lparr>e_pk = Some (next_pk (enrollments db)), student = user, course_offering = offering_id,
      grade = [], is_active = True, status = st, credits_earned = None\<rparr>"

section \<open>Example states\<close>

text \<open>
  A semester whose registration opens on day 0 and whose add/drop deadline is day 20, one
  course, one program (tuition 1000.00, exam 100.00, registration 50.00, two semesters).
\<close>

definition ex_semester :: Semester where
  "ex_semester = \<lparr>registration_start = 0, registration_end = 10, add_drop_deadline = 20\<rparr>"

definition ex_program :: Program where
  "ex_program = \<lparr>duration = 2, total_credits = 120, tuition_fee = 100000,
                  registration_fee = 5000, exam_fee = 10000, other_fees = 0\<rparr>"

definition ex_offering :: "int \<Rightarrow> int \<Rightarrow> CourseOffering" where
  "ex_offering cap n = \<lparr>co_course = 2, co_semester = 1, capacity = cap, enrolled = n,
                        co_is_active = True\<rparr>"

definition ex_enrollment :: Enrollment where
  "ex_enrollment = \<lparr>e_pk = Some 1, student = 7, course_offering = 1, grade = [],
                    is_active = True, status = ''registered'', credits_earned = None\<rparr>"

definition ex_db :: "CourseOffering \<Rightarrow> Enrollment list \<Rightarrow> database" where
  "ex_db offering rows =
     \<lparr>semesters = (\<lambda>_. ex_semester),
      courses = (\<lambda>_. \<lparr>code = ''CS101'', credits = 3\<rparr>),
      course_prerequisites = [],
      offerings = [1 \<mapsto> offering],
      enrollments = rows,
      programs = (\<lambda>_. ex_program),
      curriculum = [\<lparr>pc_program = 1, pc_course = 2\<rparr>],
      finance_records = []\<rparr>"

text \<open>Student 7 holds the one active enrollment of offering 1; the counter agrees.\<close>

definition db_enrolled :: database where
  "db_enrolled = ex_db (ex_offering 30 1) [ex_enrollment]"

text \<open>The number of active Enrollments that reference an offering.\<close>

definition active_count :: "database \<Rightarrow> nat \<Rightarrow> int" where
  "active_count db offering_id =
     int (length (filter (\<lambda>e. is_active e \<and> course_offering e = offering_id) (enrollments db)))"

definition counter_consistent :: "database \<Rightarrow> nat \<Rightarrow> bool" where
  "counter_consistent db offering_id =
     (map_option enrolled (offerings db offering_id) = Some (active_count db offering_id))"

text \<open>Student 7 has withdrawn from offering 1: the row remains, inactive.\<close>

definition db_withdrawn :: database where
  "db_withdrawn = ex_db (ex_offering 30 0) [ex_enrollment\<lparr>is_active := False, status := ''withdrawn''\<rparr>]"

text \<open>Offering 1 with a given capacity and nobody enrolled.\<close>

definition db_vacant :: "int \<Rightarrow> database" where
  "db_vacant cap = ex_db (ex_offering cap 0) []"

text \<open>The same, where the offering's course requires course 3 with grade C or better.\<close>

definition ex_prerequisite :: CoursePrerequisite where
  "ex_prerequisite = \<lparr>cp_course = 2, prerequisite = 3, is_mandatory = True,
                      minimum_grade = Some ''C''\<rparr>"

definition db_prerequisite :: "int \<Rightarrow> database" where
  "db_prerequisite cap = (db_vacant cap)\<lparr>course_prerequisites := [ex_prerequisite]\<rparr>"

text \<open>
  Student 7 has completed offering 1 (course 2, worth 3 credits) with no grade recorded,
  with the given \<open>credits_earned\<close>, in a program with the given \<open>total_credits\<close>.
\<close>

definition ex_completed :: "int option \<Rightarrow> Enrollment" where
  "ex_completed ce = ex_enrollment\<lparr>status := ''completed'', credits_earned := ce\<rparr>"

definition db_completed :: "int option \<Rightarrow> int \<Rightarrow> database" where
  "db_completed ce tc =
     (ex_db (ex_offering 30 1) [ex_completed ce])\<lparr>programs := (\<lambda>_. ex_program\<lparr>total_credits := tc\<rparr>)\<rparr>"

definition ex_program_enrollment :: ProgramEnrollment where
  "ex_program_enrollment = \<lparr>pe_student = 7, pe_program = 1\<rparr>"

text \<open>A prerequisite on course 2 that asks for grade A.\<close>

definition ex_prerequisite_A :: CoursePrerequisite where
  "ex_prerequisite_A = \<lparr>cp_course = 4, prerequisite = 2, is_mandatory = True,
                        minimum_grade = Some ''A''\<rparr>"

text \<open>The specification's example: a payment of 500.00, then a fee of 200.00.\<close>

definition ex_transactions :: "FinanceRecord list" where
  "ex_transactions =
     [\<lparr>fr_pk = None, fr_student = 7, fr_program = Some 1, transaction_type = ''payment'',
       amount = 50000, balance_after = 0\<rparr>,
      \<lparr>fr_pk = None, fr_student = 7, fr_program = Some 1, transaction_type = ''fee'',
       amount = 20000, balance_after = 0\<rparr>]"

text \<open>A fee of 99999999.99, the largest amount the column holds, then a payment of 1.00.\<close>

definition ex_large_transactions :: "FinanceRecord list" where
  "ex_large_transactions =
     [\<lparr>fr_pk = None, fr_student = 7, fr_program = Some 1, transaction_type = ''fee'',
       amount = 9999999999, balance_after = 0\<rparr>,
      \<lparr>fr_pk = None, fr_student = 7, fr_program = Some 1, transaction_type = ''payment'',
       amount = 100, balance_after = 0\<rparr>]"

text \<open>
  Exact rational arithmetic, to run \<open>progress_percentage\<close> on examples. It is not
  Python's binary floating point in general; the examples below are chosen so that every
  quotient and product is a small multiple of a power of two, where the two agree.
\<close>

definition exact_truediv :: "int \<Rightarrow> int \<Rightarrow> rat" where
  "exact_truediv a b = of_int a / of_int b"

definition exact_mul :: "rat \<Rightarrow> int \<Rightarrow> rat" where
  "exact_mul x k = x * of_int k"

section \<open>Unfolding rules\<close>

lemmas ex_defs = ex_db_def ex_offering_def ex_enrollment_def ex_semester_def ex_program_def
  db_enrolled_def db_withdrawn_def db_vacant_def ex_prerequisite_def db_prerequisite_def
  ex_completed_def db_completed_def ex_program_enrollment_def ex_prerequisite_A_def
  ex_transactions_def

lemmas op_defs = register_course_def drop_course_def get_offering_or_404_def
  get_enrollment_or_404_def Enrollment_objects_create_def Enrollment_save_def Model_save_def
  unique_together_violated_def next_pk_def is_full_def required_prerequisites_def
  active_count_def counter_consistent_def completed_def prerequisite_met_def
  new_enrollment_def

lemmas finance_defs = FinanceRecord_save_def FinanceRecord_Model_save_def next_finance_pk_def
  max_digits_ok_def
  total_program_fee_def total_fee_per_semester_def ledger_def signed_amount_def
  TRANSACTION_TYPES_def entry_def

lemmas progress_defs = progress_percentage_def credits_completed_def completed_enrollments_def
  completedCredits_def counts_towards_def enrollment_course_def exact_truediv_def exact_mul_def
  List.map_filter_simps

section \<open>Saving and creating enrollments\<close>

lemma Enrollment_objects_create_inserted:
  assumes "offerings db offering_id = Some offering"
      and "\<not> list_ex (\<lambda>r. student r = user \<and> course_offering r = offering_id) (enrollments db)"
  shows "Enrollment_objects_create db user offering_id st =
           (Inr (new_enrollment db user offering_id st),
            db\<lparr>offerings := (offerings db)(offering_id \<mapsto> offering\<lparr>enrolled := enrolled offering + 1\<rparr>),
               enrollments := enrollments db @ [new_enrollment db user offering_id st]\<rparr>)"
proof -
  from assms(2) have "\<not> unique_together_violated (enrollments db)
      \<lparr>e_pk = None, student = user, course_offering = offering_id, grade = [],
       is_active = True, status = st, credits_earned = None\<rparr>"
    by (auto simp: unique_together_violated_def list_ex_iff)
  with assms(1) show ?thesis
    by (simp add: Enrollment_objects_create_def Enrollment_save_def Model_save_def Let_def
                  new_enrollment_def)
qed

lemma Enrollment_objects_create_rejected:
  assumes "offerings db offering_id = Some offering"
      and "r \<in> set (enrollments db)" "student r = user" "course_offering r = offering_id"
          "e_pk r \<noteq> None"
  shows "Enrollment_objects_create db user offering_id st =
           (Inl IntegrityError,
            db\<lparr>offerings := (offerings db)(offering_id \<mapsto> offering\<lparr>enrolled := enrolled offering + 1\<rparr>)\<rparr>)"
proof -
  from assms(2-5) have "unique_together_violated (enrollments db)
      \<lparr>e_pk = None, student = user, course_offering = offering_id, grade = [],
       is_active = True, status = st, credits_earned = None\<rparr>"
    by (auto simp: unique_together_violated_def list_ex_iff)
  with assms(1) show ?thesis
    by (simp add: Enrollment_objects_create_def Enrollment_save_def Model_save_def Let_def)
qed

lemma Enrollment_save_not_missing:
  "Enrollment_save db e \<noteq> (Inl (MissingPrerequisite c), db')"
  by (auto simp: Enrollment_save_def Model_save_def Let_def split: option.splits if_splits)

lemma get_offering_or_404_Inr:
  "get_offering_or_404 db offering_id = Inr offering \<Longrightarrow> offerings db offering_id = Some offering"
  by (auto simp: get_offering_or_404_def split: option.splits if_splits)

lemma get_enrollment_after_update:
  assumes "find (\<lambda>r. e_pk r = Some k \<and> student r = user) rows = Some e"
      and "e_pk e' = Some k" "student e' = user"
  shows "find (\<lambda>r. e_pk r = Some k \<and> student r = user)
              (map (\<lambda>r. if e_pk r = Some k then e' else r) rows) = Some e'"
  using assms by (induction rows) (auto split: if_splits)

section \<open>The prerequisite check\<close>

lemma completed_empty_iff:
  "(completed db user p = []) = (\<not> prerequisite_met db user p)"
  by (cases "minimum_grade p")
     (auto simp: completed_def prerequisite_met_def Let_def filter_empty_conv list_ex_iff
           split: option.splits)

lemma check_prerequisites_find:
  "check_prerequisites db user ps =
     (case find (\<lambda>p. is_mandatory p \<and> \<not> prerequisite_met db user p) ps of
        None \<Rightarrow> Inr ()
      | Some p \<Rightarrow> Inl (MissingPrerequisite (code (courses db (prerequisite p)))))"
  by (induction ps) (auto simp: completed_empty_iff)

lemma check_prerequisites_met:
  "list_all (\<lambda>p. is_mandatory p \<longrightarrow> prerequisite_met db user p) ps \<Longrightarrow>
   check_prerequisites db user ps = Inr ()"
  by (induction ps) (auto simp: completed_empty_iff)

text \<open>Past its four guards and the prerequisite loop, the view is the insert.\<close>

lemma register_course_passes:
  assumes "get_offering_or_404 db offering_id = Inr offering"
      and "registration_start (semesters db (co_semester offering)) \<le> today"
      and "today \<le> add_drop_deadline (semesters db (co_semester offering))"
      and "\<not> is_full offering"
      and "\<not> list_ex (\<lambda>e. student e = user \<and> course_offering e = offering_id \<and> is_active e)
               (enrollments db)"
      and "check_prerequisites db user (required_prerequisites db (co_course offering)) = Inr ()"
  shows "register_course db today user offering_id =
           (case Enrollment_objects_create db user offering_id ''registered'' of
              (Inl err, db') \<Rightarrow> (Inl err, db')
            | (Inr _, db') \<Rightarrow> (Inr (), db'))"
  using assms by (simp add: register_course_def Let_def)

section \<open>The enrolled counter\<close>

lemma db_enrolled_consistent: "counter_consistent db_enrolled 1"
  by (simp add: ex_defs op_defs Let_def)

text \<open>
  The counter is kept by a successful registration, and by a successful drop of an
  enrollment that is active when the primary keys of the table are distinct.
\<close>

lemma Enrollment_objects_create_success:
  assumes "Enrollment_objects_create db user offering_id st = (Inr e', db')"
  shows "\<exists>offering. offerings db offering_id = Some offering
           \<and> db' = db\<lparr>offerings := (offerings db)(offering_id \<mapsto> offering\<lparr>enrolled := enrolled offering + 1\<rparr>),
                       enrollments := enrollments db @ [new_enrollment db user offering_id st]\<rparr>"
  using assms
  by (auto simp: Enrollment_objects_create_def Enrollment_save_def Model_save_def Let_def
                 new_enrollment_def split: option.splits if_splits)

lemma register_course_success:
  assumes "register_course db today user offering_id = (Inr (), db')"
  shows "\<exists>offering. offerings db offering_id = Some offering
           \<and> db' = db\<lparr>offerings := (offerings db)(offering_id \<mapsto> offering\<lparr>enrolled := enrolled offering + 1\<rparr>),
                       enrollments := enrollments db @ [new_enrollment db user offering_id ''registered'']\<rparr>"
proof (cases "Enrollment_objects_create db user offering_id ''registered''")
  case (Pair r db1)
  with assms have "\<exists>e'. r = Inr e' \<and> db1 = db'"
    by (cases r) (auto simp: register_course_def Let_def split: sum.splits if_splits)
  with Pair Enrollment_objects_create_success show ?thesis by blast
qed

lemma register_course_keeps_counter:
  assumes "register_course db today user offering_id = (Inr (), db')"
      and "counter_consistent db k"
  shows "counter_consistent db' k"
proof -
  from register_course_success [OF assms(1)] obtain offering where
    off: "offerings db offering_id = Some offering"
    and db': "db' = db\<lparr>offerings := (offerings db)(offering_id \<mapsto> offering\<lparr>enrolled := enrolled offering + 1\<rparr>),
                       enrollments := enrollments db @ [new_enrollment db user offering_id ''registered'']\<rparr>"
    by blast
  from assms(2) off show ?thesis
    by (auto simp: db' counter_consistent_def active_count_def new_enrollment_def)
qed

lemma map_replace_absent:
  "Some k \<notin> set (map e_pk rows) \<Longrightarrow> map (\<lambda>r. if e_pk r = Some k then e' else r) rows = rows"
  by (induction rows) auto

lemma active_count_after_withdraw:
  assumes "distinct (map e_pk rows)" "e \<in> set rows" "e_pk e = Some k" "is_active e"
      and "\<not> is_active e'"
  shows "length (filter (\<lambda>r. is_active r \<and> course_offering r = oid)
                 (map (\<lambda>r. if e_pk r = Some k then e' else r) rows))
           + (if course_offering e = oid then 1 else 0)
         = length (filter (\<lambda>r. is_active r \<and> course_offering r = oid) rows)"
  using assms(1,2)
proof (induction rows)
  case Nil
  then show ?case by simp
next
  case (Cons x rows)
  show ?case
  proof (cases "e_pk x = Some k")
    case True
    with Cons.prems assms(3) have "x = e" and "Some k \<notin> set (map e_pk rows)"
      by (auto simp: image_iff)
    with True assms(4,5) show ?thesis by (simp add: map_replace_absent)
  next
    case False
    with Cons.prems assms(3) have "e \<in> set rows" "distinct (map e_pk rows)" by auto
    from Cons.IH [OF this(2,1)] False show ?thesis by (simp split: if_splits)
  qed
qed

lemma drop_course_success:
  assumes "drop_course db today user enrollment_id = (Inr (), db')"
      and "get_enrollment_or_404 db enrollment_id user = Inr e"
  shows "\<exists>offering. offerings db (course_offering e) = Some offering
           \<and> db' = db\<lparr>enrollments := map (\<lambda>r. if e_pk r = Some enrollment_id
                                    then e\<lparr>is_active := False, status := ''withdrawn''\<rparr> else r)
                               (enrollments db),
                       offerings := (offerings db)(course_offering e \<mapsto> offering\<lparr>enrolled := enrolled offering - 1\<rparr>)\<rparr>"
proof -
  from assms(2) have f: "find (\<lambda>r. e_pk r = Some enrollment_id \<and> student r = user) (enrollments db) = Some e"
    by (auto simp: get_enrollment_or_404_def split: option.splits)
  then have e: "e_pk e = Some enrollment_id" "e \<in> set (enrollments db)"
    by (auto simp: find_Some_iff)
  then have ex: "list_ex (\<lambda>r. e_pk r = Some enrollment_id) (enrollments db)"
    by (auto simp: list_ex_iff)
  from assms ex e(1) show ?thesis
    by (auto simp: drop_course_def Enrollment_save_def Model_save_def Let_def
             split: option.splits if_splits)
qed

lemma drop_course_keeps_counter:
  assumes "drop_course db today user enrollment_id = (Inr (), db')"
      and "get_enrollment_or_404 db enrollment_id user = Inr e"
      and "is_active e"
      and "distinct (map e_pk (enrollments db))"
      and "counter_consistent db k"
  shows "counter_consistent db' k"
proof -
  from assms(2) have "find (\<lambda>r. e_pk r = Some enrollment_id \<and> student r = user) (enrollments db) = Some e"
    by (auto simp: get_enrollment_or_404_def split: option.splits)
  then have e: "e_pk e = Some enrollment_id" "e \<in> set (enrollments db)"
    by (auto simp: find_Some_iff)
  from drop_course_success [OF assms(1,2)] obtain offering where
    off: "offerings db (course_offering e) = Some offering"
    and db': "db' = db\<lparr>enrollments := map (\<lambda>r. if e_pk r = Some enrollment_id
                                    then e\<lparr>is_active := False, status := ''withdrawn''\<rparr> else r)
                               (enrollments db),
                       offerings := (offerings db)(course_offering e \<mapsto> offering\<lparr>enrolled := enrolled offering - 1\<rparr>)\<rparr>"
    by blast
  have "active_count db' k = active_count db k - (if course_offering e = k then 1 else 0)"
    unfolding active_count_def db'
    using active_count_after_withdraw [OF assms(4) e(2) e(1) assms(3),
             of "e\<lparr>is_active := False, status := ''withdrawn''\<rparr>" k]
    by (simp split: if_splits)
  with assms(5) off show ?thesis
    by (auto simp: counter_consistent_def db')
qed

text \<open>
  C1. The claim: after any sequence of successful register and drop operations, started
  where \<open>enrolled\<close> equals the number of active Enrollments of the offering, the two are
  still equal. \<open>drop_course\<close> looks the enrollment up by key and student only, so it
  succeeds again on an enrollment that is already withdrawn and decrements the counter a
  second time: from the consistent state \<open>db_enrolled\<close> two successful drops of
  enrollment 1 leave \<open>enrolled = -1\<close> with no active enrollment.
\<close>

theorem drop_twice_breaks_counter:
  "(let (r1, db1) = drop_course db_enrolled 5 7 1;
        (r2, db2) = drop_course db1 5 7 1
    in r1 = Inr () \<and> r2 = Inr ()
       \<and> map_option enrolled (offerings db2 1) = Some (- 1)
       \<and> active_count db2 1 = 0
       \<and> \<not> counter_consistent db2 1)"
  by (simp add: ex_defs op_defs Let_def)

section \<open>Registration\<close>

text \<open>
  A registration at an offering the lookup finds, with the window open, every mandatory
  prerequisite met and no Enrollment row of the student for the offering: when
  \<open>enrolled \<ge> capacity\<close> the view rejects with \<open>CapacityExceeded\<close> and changes
  nothing; otherwise it succeeds, appends one active, registered Enrollment and
  increases \<open>enrolled\<close> by exactly 1.
\<close>

lemma register_course_without_row:
  assumes "get_offering_or_404 db offering_id = Inr offering"
      and "registration_start (semesters db (co_semester offering)) \<le> today"
      and "today \<le> add_drop_deadline (semesters db (co_semester offering))"
      and "\<not> list_ex (\<lambda>e. student e = user \<and> course_offering e = offering_id) (enrollments db)"
      and "list_all (\<lambda>p. is_mandatory p \<longrightarrow> prerequisite_met db user p)
             (required_prerequisites db (co_course offering))"
  shows "register_course db today user offering_id =
           (if enrolled offering \<ge> capacity offering then (Inl CapacityExceeded, db)
            else (Inr (),
                  db\<lparr>offerings := (offerings db)(offering_id \<mapsto>
                                     offering\<lparr>enrolled := enrolled offering + 1\<rparr>),
                     enrollments := enrollments db @
                                     [new_enrollment db user offering_id ''registered'']\<rparr>))"
proof (cases "enrolled offering \<ge> capacity offering")
  case True
  with assms(1-3) show ?thesis by (simp add: register_course_def Let_def is_full_def)
next
  case False
  then have nf: "\<not> is_full offering" by (simp add: is_full_def)
  from assms(4) have nd: "\<not> list_ex (\<lambda>e. student e = user \<and> course_offering e = offering_id \<and> is_active e)
               (enrollments db)"
    by (auto simp: list_ex_iff)
  show ?thesis
    unfolding register_course_passes [OF assms(1-3) nf nd check_prerequisites_met [OF assms(5)]]
    using False
    by (simp add: Enrollment_objects_create_inserted [OF get_offering_or_404_Inr [OF assms(1)] assms(4)])
qed

text \<open>
  The same request from a student whose row for the offering is stored but inactive
  passes the duplicate guard, which filters on \<open>is_active\<close>. \<open>Enrollment.save\<close> then
  increments and saves the offering's counter, and the insert violates
  \<open>unique_together\<close>: the \<open>IntegrityError\<close> escapes the view, no row is added, and
  the counter stays incremented.
\<close>

lemma register_course_with_inactive_row:
  assumes "get_offering_or_404 db offering_id = Inr offering"
      and "registration_start (semesters db (co_semester offering)) \<le> today"
      and "today \<le> add_drop_deadline (semesters db (co_semester offering))"
      and "\<not> is_full offering"
      and "list_all (\<lambda>p. is_mandatory p \<longrightarrow> prerequisite_met db user p)
             (required_prerequisites db (co_course offering))"
      and "\<not> list_ex (\<lambda>e. student e = user \<and> course_offering e = offering_id \<and> is_active e)
               (enrollments db)"
      and "r \<in> set (enrollments db)" "e_pk r \<noteq> None"
          "student r = user" "course_offering r = offering_id"
  shows "register_course db today user offering_id =
           (Inl IntegrityError,
            db\<lparr>offerings := (offerings db)(offering_id \<mapsto>
                               offering\<lparr>enrolled := enrolled offering + 1\<rparr>)\<rparr>)"
  unfolding register_course_passes [OF assms(1-4) assms(6) check_prerequisites_met [OF assms(5)]]
  by (simp add: Enrollment_objects_create_rejected
                  [OF get_offering_or_404_Inr [OF assms(1)] assms(7) assms(9) assms(10) assms(8)])

text \<open>
  C3. The claim: with the registration window open, no active enrollment of the student
  in the offering and all prerequisites met, register fails with \<open>CapacityExceeded\<close>
  when \<open>enrolled \<ge> capacity\<close> and otherwise succeeds, creating an active Enrollment and
  increasing \<open>enrolled\<close> by 1. The code at \<open>db_withdrawn\<close>, where all of this holds
  and 30 seats are free, but student 7's withdrawn enrollment is still stored: the request
  ends in \<open>IntegrityError\<close>, no Enrollment is created, and \<open>enrolled\<close> goes from 0 to
  1 while the offering has no active enrollment.
\<close>

theorem register_course_withdrawn_row:
  "get_offering_or_404 db_withdrawn 1 = Inr (ex_offering 30 0)
   \<and> registration_start ex_semester \<le> 5 \<and> 5 \<le> add_drop_deadline ex_semester
   \<and> \<not> list_ex (\<lambda>e. student e = 7 \<and> course_offering e = 1 \<and> is_active e) (enrollments db_withdrawn)
   \<and> required_prerequisites db_withdrawn 2 = []
   \<and> enrolled (ex_offering 30 0) < capacity (ex_offering 30 0)
   \<and> counter_consistent db_withdrawn 1
   \<and> fst (register_course db_withdrawn 5 7 1) = Inl IntegrityError
   \<and> enrollments (snd (register_course db_withdrawn 5 7 1)) = enrollments db_withdrawn
   \<and> map_option enrolled (offerings (snd (register_course db_withdrawn 5 7 1)) 1) = Some 1
   \<and> active_count (snd (register_course db_withdrawn 5 7 1)) 1 = 0"
  by (simp add: ex_defs op_defs Let_def)

text \<open>
  C4. The claim: a student holding a withdrawn Enrollment in an offering can register for
  it again, with capacity, window and prerequisites satisfied, which creates a new
  Enrollment row. The code: student 7 registers for offering 1, drops it and registers
  again, all before the deadline and with seats left. The first two requests succeed; the
  third ends in \<open>IntegrityError\<close>, the Enrollment table keeps its single, withdrawn
  row, and \<open>enrolled\<close> is left at 1 with no active enrollment.
\<close>

theorem register_again_after_drop:
  "(let (r1, db1) = register_course (db_vacant 30) 5 7 1;
        (r2, db2) = drop_course db1 6 7 1;
        (r3, db3) = register_course db2 7 7 1
    in r1 = Inr () \<and> r2 = Inr () \<and> r3 = Inl IntegrityError
       \<and> enrollments db2 = [ex_enrollment\<lparr>is_active := False, status := ''withdrawn''\<rparr>]
       \<and> counter_consistent db2 1
       \<and> enrollments db3 = enrollments db2
       \<and> map_option enrolled (offerings db3 1) = Some 1
       \<and> active_count db3 1 = 0)"
  by (simp add: ex_defs op_defs Let_def)

text \<open>
  C7, as the claim states it, fails: student 7 takes the only seat of offering 1 and
  registers again. The capacity check comes before the duplicate check, so the second
  attempt is rejected with \<open>CapacityExceeded\<close>, not \<open>DuplicateEnrollment\<close>.
\<close>

theorem register_twice_counterexample:
  "(let (r1, db1) = register_course (db_vacant 1) 5 7 1;
        (r2, db2) = register_course db1 5 7 1
    in r1 = Inr ()
       \<and> list_ex (\<lambda>e. student e = 7 \<and> course_offering e = 1 \<and> is_active e) (enrollments db1)
       \<and> r2 = Inl CapacityExceeded \<and> r2 \<noteq> Inl DuplicateEnrollment)"
  by (simp add: ex_defs op_defs Let_def)

text \<open>
  C7, amended. A registration attempt by a student who already has an active enrollment in
  the target offering creates no Enrollment and leaves the offering's counter (the whole
  database) unchanged. It is rejected with \<open>DuplicateEnrollment\<close> when the offering is
  found, the window is open and \<open>enrolled < capacity\<close>; the lookup, the window check and
  the capacity check come first and answer \<open>Http404\<close>, \<open>RegistrationWindowClosed\<close> or
  \<open>CapacityExceeded\<close> otherwise.
\<close>

theorem register_course_duplicate:
  assumes "list_ex (\<lambda>e. student e = user \<and> course_offering e = offering_id \<and> is_active e)
             (enrollments db)"
  shows "snd (register_course db today user offering_id) = db
       \<and> fst (register_course db today user offering_id) =
           (case get_offering_or_404 db offering_id of
              Inl err \<Rightarrow> Inl err
            | Inr offering \<Rightarrow>
                if today < registration_start (semesters db (co_semester offering))
                   \<or> today > add_drop_deadline (semesters db (co_semester offering))
                then Inl RegistrationWindowClosed
                else if enrolled offering \<ge> capacity offering then Inl CapacityExceeded
                else Inl DuplicateEnrollment)"
  using assms by (simp add: register_course_def Let_def is_full_def split: sum.splits)

theorem register_course_duplicate_witness:
  "list_ex (\<lambda>e. student e = 7 \<and> course_offering e = 1 \<and> is_active e) (enrollments db_enrolled)
   \<and> register_course db_enrolled 5 7 1 = (Inl DuplicateEnrollment, db_enrolled)"
proof -
  have h: "list_ex (\<lambda>e. student e = 7 \<and> course_offering e = 1 \<and> is_active e) (enrollments db_enrolled)"
    by (simp add: ex_defs)
  have "get_offering_or_404 db_enrolled 1 = Inr (ex_offering 30 1)"
    by (simp add: ex_defs op_defs Let_def)
  with register_course_duplicate [OF h, of 5] h show ?thesis
    by (cases "register_course db_enrolled 5 7 1") (simp add: ex_defs)
qed

section \<open>Prerequisites\<close>

text \<open>
  C5, as the claim states it, fails: the course of a full offering has a mandatory
  prerequisite that student 7 has not completed, and the registration is rejected with
  \<open>CapacityExceeded\<close>, not \<open>MissingPrerequisite\<close>: the prerequisites are looked at only
  after the window, capacity and duplicate checks.
\<close>

theorem register_course_prerequisites_counterexample:
  "list_ex (\<lambda>p. is_mandatory p \<and> \<not> prerequisite_met (db_prerequisite 0) 7 p)
     (required_prerequisites (db_prerequisite 0) 2)
   \<and> register_course (db_prerequisite 0) 5 7 1 = (Inl CapacityExceeded, db_prerequisite 0)"
  by (simp add: ex_defs op_defs Let_def)

text \<open>
  C5, amended. When the earlier checks of register pass (the offering is found, the window
  is open, \<open>enrolled < capacity\<close>, the student has no active enrollment in the offering),
  the registration is blocked with \<open>MissingPrerequisite\<close> if and only if some mandatory
  CoursePrerequisite of the target course is not met, that is, the student has no completed,
  active enrollment in the prerequisite course whose grade string is lexicographically at
  most \<open>minimum_grade\<close> (any completed active enrollment when no minimum grade is set).
  The error names the code of the first such prerequisite in iteration order and the
  database is unchanged; non-mandatory prerequisites never block.
\<close>

theorem register_course_prerequisites:
  assumes "get_offering_or_404 db offering_id = Inr offering"
      and "registration_start (semesters db (co_semester offering)) \<le> today"
      and "today \<le> add_drop_deadline (semesters db (co_semester offering))"
      and "\<not> is_full offering"
      and "\<not> list_ex (\<lambda>e. student e = user \<and> course_offering e = offering_id \<and> is_active e)
               (enrollments db)"
  shows "((\<exists>c. fst (register_course db today user offering_id) = Inl (MissingPrerequisite c))
           = list_ex (\<lambda>p. is_mandatory p \<and> \<not> prerequisite_met db user p)
               (required_prerequisites db (co_course offering)))
       \<and> (case find (\<lambda>p. is_mandatory p \<and> \<not> prerequisite_met db user p)
                  (required_prerequisites db (co_course offering)) of
            None \<Rightarrow> True
          | Some p \<Rightarrow> register_course db today user offering_id
                       = (Inl (MissingPrerequisite (code (courses db (prerequisite p)))), db))"
proof (cases "find (\<lambda>p. is_mandatory p \<and> \<not> prerequisite_met db user p)
                  (required_prerequisites db (co_course offering))")
  case None
  then have chk: "check_prerequisites db user (required_prerequisites db (co_course offering)) = Inr ()"
    by (simp add: check_prerequisites_find)
  from None have no: "\<not> list_ex (\<lambda>p. is_mandatory p \<and> \<not> prerequisite_met db user p)
               (required_prerequisites db (co_course offering))"
    by (simp add: find_None_iff list_ex_iff)
  have "fst (register_course db today user offering_id) \<noteq> Inl (MissingPrerequisite c)" for c
  proof (cases "Enrollment_objects_create db user offering_id ''registered''")
    case (Pair r db')
    with Enrollment_save_not_missing [of db _ c db'] show ?thesis
      unfolding register_course_passes [OF assms chk]
      by (cases r) (auto simp: Enrollment_objects_create_def)
  qed
  with None no show ?thesis by simp
next
  case (Some p)
  then have chk: "check_prerequisites db user (required_prerequisites db (co_course offering))
                   = Inl (MissingPrerequisite (code (courses db (prerequisite p))))"
    by (simp add: check_prerequisites_find)
  from Some have ex: "list_ex (\<lambda>p. is_mandatory p \<and> \<not> prerequisite_met db user p)
               (required_prerequisites db (co_course offering))"
    by (auto simp: find_Some_iff list_ex_iff)
  have "register_course db today user offering_id
          = (Inl (MissingPrerequisite (code (courses db (prerequisite p)))), db)"
    using assms chk by (simp add: register_course_def Let_def)
  with Some ex show ?thesis by auto
qed

theorem register_course_prerequisites_witness:
  "register_course (db_prerequisite 30) 5 7 1
     = (Inl (MissingPrerequisite ''CS101''), db_prerequisite 30)"
proof -
  have "get_offering_or_404 (db_prerequisite 30) 1 = Inr (ex_offering 30 0)"
    and "registration_start (semesters (db_prerequisite 30) (co_semester (ex_offering 30 0))) \<le> 5"
    and "5 \<le> add_drop_deadline (semesters (db_prerequisite 30) (co_semester (ex_offering 30 0)))"
    and "\<not> is_full (ex_offering 30 0)"
    and "\<not> list_ex (\<lambda>e. student e = 7 \<and> course_offering e = 1 \<and> is_active e)
               (enrollments (db_prerequisite 30))"
    by (simp_all add: ex_defs op_defs Let_def)
  from register_course_prerequisites [OF this] show ?thesis
    by (simp add: ex_defs required_prerequisites_def prerequisite_met_def)
qed

text \<open>
  C10. A completed, active enrollment of the student in the prerequisite course whose
  grade is the empty string belongs to the qualifying enrollments of the prerequisite
  whatever its \<open>minimum_grade\<close> is, so the loop does not stop at that prerequisite: the
  empty string is at most every string in the order \<open>grade__lte\<close> uses.
\<close>

theorem empty_grade_accepted:
  assumes "e \<in> set (enrollments db)"
      and "student e = user"
      and "offerings db (course_offering e) = Some offering"
      and "co_course offering = prerequisite prereq"
      and "status e = ''completed''"
      and "is_active e"
      and "grade e = []"
  shows "e \<in> set (completed db user prereq)
       \<and> check_prerequisites db user (prereq # rest) = check_prerequisites db user rest
       \<and> (\<forall>g. grade e \<le> g)"
proof -
  have le: "grade e \<le> g" for g using assms(7) by simp
  have "e \<in> set (completed db user prereq)"
    using assms le by (cases "minimum_grade prereq") (auto simp: completed_def Let_def)
  moreover from this have "completed db user prereq \<noteq> []" by auto
  ultimately show ?thesis using le by simp
qed

theorem empty_grade_accepted_witness:
  "minimum_grade ex_prerequisite_A = Some ''A'' \<and> grade (ex_completed None) = []
   \<and> ex_completed None \<in> set (completed (db_completed None 120) 7 ex_prerequisite_A)
   \<and> check_prerequisites (db_completed None 120) 7 [ex_prerequisite_A] = Inr ()"
proof -
  have "ex_completed None \<in> set (enrollments (db_completed None 120))"
    and "student (ex_completed None) = 7"
    and "offerings (db_completed None 120) (course_offering (ex_completed None)) = Some (ex_offering 30 1)"
    and "co_course (ex_offering 30 1) = prerequisite ex_prerequisite_A"
    and "status (ex_completed None) = ''completed''"
    and "is_active (ex_completed None)"
    and "grade (ex_completed None) = []"
    by (simp_all add: ex_defs)
  from empty_grade_accepted [OF this, of "[]"] show ?thesis
    by (simp add: ex_defs)
qed

section \<open>Dropping a course\<close>

text \<open>
  C6. For an enrollment of the requesting student whose offering exists and whose row
  satisfies the table's uniqueness constraint: after the semester's \<open>add_drop_deadline\<close>
  the drop fails with \<open>DeadlinePassed\<close> and the database is unchanged (so are the
  counter, the status and the active flag); on or before the deadline it succeeds, the
  enrollment is stored withdrawn and inactive, and the offering's \<open>enrolled\<close> is one
  less than before.
\<close>

theorem drop_course_deadline:
  assumes "get_enrollment_or_404 db enrollment_id user = Inr e"
      and "offerings db (course_offering e) = Some offering"
      and "\<not> unique_together_violated (enrollments db) e"
  shows "if today > add_drop_deadline (semesters db (co_semester offering))
         then drop_course db today user enrollment_id = (Inl DeadlinePassed, db)
         else fst (drop_course db today user enrollment_id) = Inr ()
            \<and> get_enrollment_or_404 (snd (drop_course db today user enrollment_id)) enrollment_id user
                = Inr (e\<lparr>is_active := False, status := ''withdrawn''\<rparr>)
            \<and> map_option enrolled (offerings (snd (drop_course db today user enrollment_id))
                                      (course_offering e))
                = Some (enrolled offering - 1)"
proof -
  from assms(1) have f: "find (\<lambda>r. e_pk r = Some enrollment_id \<and> student r = user) (enrollments db) = Some e"
    by (auto simp: get_enrollment_or_404_def split: option.splits)
  then have e: "e_pk e = Some enrollment_id" "student e = user" "e \<in> set (enrollments db)"
    by (auto simp: find_Some_iff)
  then have ex: "list_ex (\<lambda>r. e_pk r = Some enrollment_id) (enrollments db)"
    by (auto simp: list_ex_iff)
  from assms(3) have u: "\<not> unique_together_violated (enrollments db) (e\<lparr>is_active := False, status := ''withdrawn''\<rparr>)"
    by (simp add: unique_together_violated_def)
  have save: "Enrollment_save db (e\<lparr>is_active := False, status := ''withdrawn''\<rparr>) =
      (Inr (e\<lparr>is_active := False, status := ''withdrawn''\<rparr>),
       db\<lparr>enrollments := map (\<lambda>r. if e_pk r = Some enrollment_id
                                    then e\<lparr>is_active := False, status := ''withdrawn''\<rparr> else r)
                               (enrollments db)\<rparr>)"
    using u ex e(1) by (simp add: Enrollment_save_def Model_save_def)
  show ?thesis
    using assms(1,2) e(1,2) get_enrollment_after_update [OF f, of "e\<lparr>is_active := False, status := ''withdrawn''\<rparr>"]
    by (simp add: drop_course_def Let_def save get_enrollment_or_404_def)
qed

theorem drop_course_deadline_witness:
  "drop_course db_enrolled 21 7 1 = (Inl DeadlinePassed, db_enrolled)
   \<and> fst (drop_course db_enrolled 20 7 1) = Inr ()
   \<and> enrollments (snd (drop_course db_enrolled 20 7 1))
       = [ex_enrollment\<lparr>is_active := False, status := ''withdrawn''\<rparr>]
   \<and> map_option enrolled (offerings (snd (drop_course db_enrolled 20 7 1)) 1) = Some 0"
proof -
  have a: "get_enrollment_or_404 db_enrolled 1 7 = Inr ex_enrollment"
    by (simp add: ex_defs op_defs Let_def)
  have b: "offerings db_enrolled (course_offering ex_enrollment) = Some (ex_offering 30 1)"
    by (simp add: ex_defs)
  have c: "\<not> unique_together_violated (enrollments db_enrolled) ex_enrollment"
    by (simp add: ex_defs op_defs Let_def)
  from drop_course_deadline [OF a b c, of 21] drop_course_deadline [OF a b c, of 20]
  show ?thesis by (simp add: ex_defs op_defs Let_def)
qed

section \<open>The finance ledger\<close>

lemma FinanceRecord_Model_save_no_NameError:
  "FinanceRecord_Model_save rows r \<noteq> Inl NameError"
  by (simp add: FinanceRecord_Model_save_def Let_def split: option.splits)

text \<open>
  C9. Saving a finance record with no program raises \<open>NameError\<close> before any balance is
  computed or any row written (the result carries no database), and a record with a
  program never raises it: the save ends in \<open>NameError\<close> exactly when the program is null.
\<close>

theorem FinanceRecord_save_NameError:
  "(FinanceRecord_save db self = Inl NameError) = (fr_program self = None)"
proof (cases "fr_program self")
  case None
  then show ?thesis by (simp add: FinanceRecord_save_def)
next
  case (Some p)
  then show ?thesis
    using FinanceRecord_Model_save_no_NameError
    by (auto simp: FinanceRecord_save_def Let_def split: sum.splits)
qed

theorem FinanceRecord_save_NameError_witness:
  "FinanceRecord_save db_enrolled
     \<lparr>fr_pk = None, fr_student = 7, fr_program = None, transaction_type = ''payment'',
      amount = 50000, balance_after = 0\<rparr> = Inl NameError"
  using FinanceRecord_save_NameError
          [of db_enrolled "\<lparr>fr_pk = None, fr_student = 7, fr_program = None,
                transaction_type = ''payment'', amount = 50000, balance_after = 0\<rparr>"]
  by simp

text \<open>For the four transaction types the sign the code gives a stored row is the specification's.\<close>

lemma signed_amount_valid:
  "transaction_type r \<in> set TRANSACTION_TYPES \<Longrightarrow>
   (if transaction_type r = ''payment'' \<or> transaction_type r = ''refund'' then amount r else - amount r)
     = signed_amount r"
  by (auto simp: signed_amount_def TRANSACTION_TYPES_def)

lemma previous_payments_sum:
  assumes "list_all (\<lambda>r. fr_pk r \<noteq> None \<and> transaction_type r \<in> set TRANSACTION_TYPES) rows"
  shows "sum_list (map (\<lambda>r. if transaction_type r = ''payment'' \<or> transaction_type r = ''refund''
                              then amount r else - amount r)
            (filter (\<lambda>r. fr_student r = s \<and> fr_program r = Some p \<and> fr_pk r \<noteq> None) rows))
         = sum_list (map signed_amount (filter (\<lambda>r. fr_student r = s \<and> fr_program r = Some p) rows))"
  using assms by (induction rows) (auto simp: signed_amount_valid)

text \<open>
  What saving a new record with a program does to a table of keyed, well-typed rows: the
  record is appended with its balance when the amount and the balance fit the decimal
  columns, and the save raises \<open>InvalidOperation\<close> otherwise.
\<close>

lemma FinanceRecord_save_new:
  assumes "fr_program r = Some p" "transaction_type r \<in> set TRANSACTION_TYPES"
      and "list_all (\<lambda>r. fr_pk r \<noteq> None \<and> transaction_type r \<in> set TRANSACTION_TYPES) (finance_records db)"
  shows "FinanceRecord_save db (r\<lparr>fr_pk := None\<rparr>) =
           (if max_digits_ok (amount r)
               \<and> max_digits_ok (total_program_fee (programs db p)
                     - (sum_list (map signed_amount (ledger db (fr_student r) p)) + signed_amount r))
            then Inr (r\<lparr>fr_pk := Some (next_finance_pk (finance_records db)),
                  balance_after := total_program_fee (programs db p)
                     - (sum_list (map signed_amount (ledger db (fr_student r) p)) + signed_amount r)\<rparr>,
                db\<lparr>finance_records := finance_records db @
                   [r\<lparr>fr_pk := Some (next_finance_pk (finance_records db)),
                      balance_after := total_program_fee (programs db p)
                        - (sum_list (map signed_amount (ledger db (fr_student r) p)) + signed_amount r)\<rparr>]\<rparr>)
            else Inl InvalidOperation)"
proof -
  have s: "signed_amount r =
      (if transaction_type r = ''payment'' \<or> transaction_type r = ''refund'' then amount r
       else if transaction_type r = ''fee'' \<or> transaction_type r = ''adjustment'' then - amount r else 0)"
    by (auto simp: signed_amount_def)
  show ?thesis
    using assms(1) previous_payments_sum [OF assms(3), of "fr_student r" p]
    by (simp add: FinanceRecord_save_def FinanceRecord_Model_save_def Let_def ledger_def s)
qed

lemma ledger_ok_step:
  assumes ok: "ledger_ok db"
      and p: "fr_program r = Some p" and t: "transaction_type r \<in> set TRANSACTION_TYPES"
      and save: "FinanceRecord_save db (r\<lparr>fr_pk := None\<rparr>) = Inr (r', db')"
  shows "ledger_ok db'"
proof -
  let ?L = "ledger db (fr_student r) p"
  let ?r = "r\<lparr>fr_pk := Some (next_finance_pk (finance_records db)),
               balance_after := total_program_fee (programs db p)
                  - (sum_list (map signed_amount ?L) + signed_amount r)\<rparr>"
  from ok have rows: "list_all (\<lambda>r. fr_pk r \<noteq> None \<and> transaction_type r \<in> set TRANSACTION_TYPES) (finance_records db)"
    by (simp add: ledger_ok_def)
  from save have db': "db' = db\<lparr>finance_records := finance_records db @ [?r]\<rparr>"
    unfolding FinanceRecord_save_new [OF p t rows] by (auto split: if_splits)
  have sr: "signed_amount ?r = signed_amount r" by (simp add: signed_amount_def)
  have P: "programs db' = programs db" by (simp add: db')
  have bal: "balance_after (ledger db' s q ! K) =
              total_program_fee (programs db' q) - sum_list (map signed_amount (take (Suc K) (ledger db' s q)))"
    if K: "K < length (ledger db' s q)" for s q K
  proof (cases "s = fr_student r \<and> q = p")
    case False
    then have "ledger db' s q = ledger db s q" using p by (auto simp: db' ledger_def)
    with K ok show ?thesis by (simp add: ledger_ok_def P)
  next
    case True
    then have sq: "s = fr_student r" "q = p" by simp_all
    have L: "ledger db' (fr_student r) p = ?L @ [?r]" using p by (simp add: db' ledger_def)
    show ?thesis
    proof (cases "K < length ?L")
      case True
      with ok have "balance_after (?L ! K) =
          total_program_fee (programs db p) - sum_list (map signed_amount (take (Suc K) ?L))"
        by (simp add: ledger_ok_def)
      with True show ?thesis unfolding sq by (simp add: L nth_append P)
    next
      case False
      with K L sq have "K = length ?L" by simp
      then show ?thesis unfolding sq by (simp add: L nth_append P sr)
    qed
  qed
  have "list_all (\<lambda>r. fr_pk r \<noteq> None \<and> transaction_type r \<in> set TRANSACTION_TYPES) (finance_records db')"
    using rows t by (simp add: db')
  with bal show ?thesis unfolding ledger_ok_def by blast
qed

text \<open>The signed sum of a ledger depends on the stored rows through their entries only.\<close>

lemma ledger_sum_entry:
  "map entry rows = map entry prior \<Longrightarrow>
   sum_list (map signed_amount (filter (\<lambda>x. fr_student x = s \<and> fr_program x = q) rows))
     = sum_list (map signed_amount (filter (\<lambda>x. fr_student x = s \<and> fr_program x = q) prior))"
proof (induction rows arbitrary: prior)
  case Nil
  then show ?case by simp
next
  case (Cons x rows)
  then obtain y ys where prior: "prior = y # ys" and xy: "entry x = entry y"
    and rest: "map entry rows = map entry ys"
    by (cases prior) auto
  from xy have "signed_amount x = signed_amount y" "fr_student x = fr_student y"
    "fr_program x = fr_program y"
    by (simp_all add: entry_def signed_amount_def)
  with Cons.IH [OF rest] show ?case by (simp add: prior)
qed

lemma append_transactions_ok:
  assumes "ledger_ok db"
      and "list_all (\<lambda>r. fr_program r \<noteq> None \<and> transaction_type r \<in> set TRANSACTION_TYPES) rs"
      and "map entry (finance_records db) = map entry prior"
      and "amounts_fit (programs db) prior rs"
  shows "\<exists>db'. append_transactions db rs = Inr db' \<and> ledger_ok db' \<and> programs db' = programs db
            \<and> map entry (finance_records db') = map entry (finance_records db) @ map entry rs"
  using assms
proof (induction rs arbitrary: db prior)
  case Nil
  then show ?case by simp
next
  case (Cons r rs)
  from Cons.prems(2) obtain p where p: "fr_program r = Some p"
    and t: "transaction_type r \<in> set TRANSACTION_TYPES"
    and rest: "list_all (\<lambda>r. fr_program r \<noteq> None \<and> transaction_type r \<in> set TRANSACTION_TYPES) rs"
    by auto
  from Cons.prems(1) have rows: "list_all (\<lambda>r. fr_pk r \<noteq> None \<and> transaction_type r \<in> set TRANSACTION_TYPES) (finance_records db)"
    by (simp add: ledger_ok_def)
  from Cons.prems(4) have fit: "max_digits_ok (amount r)"
    "max_digits_ok (expected_balance (programs db) prior r)"
    "amounts_fit (programs db) (prior @ [r]) rs"
    by simp_all
  have "expected_balance (programs db) prior r =
          total_program_fee (programs db p)
            - (sum_list (map signed_amount (ledger db (fr_student r) p)) + signed_amount r)"
    using ledger_sum_entry [OF Cons.prems(3), of "fr_student r" "Some p"]
    by (simp add: expected_balance_def p ledger_def)
  with fit(1,2) FinanceRecord_save_new [OF p t rows] obtain r' db1 where
    save: "FinanceRecord_save db (r\<lparr>fr_pk := None\<rparr>) = Inr (r', db1)"
    and db1: "programs db1 = programs db"
             "map entry (finance_records db1) = map entry (finance_records db) @ [entry r]"
    by (simp add: entry_def)
  from ledger_ok_step [OF Cons.prems(1) p t save] have ok1: "ledger_ok db1" .
  from db1(2) Cons.prems(3) have e1: "map entry (finance_records db1) = map entry (prior @ [r])"
    by simp
  from fit(3) db1(1) have f1: "amounts_fit (programs db1) (prior @ [r]) rs" by simp
  from Cons.IH [OF ok1 rest e1 f1] save db1 show ?case by auto
qed

text \<open>
  A fee of 99999999.99 fits the amount column, but the balance it leaves, 100002249.99,
  has eleven digits: the save raises \<open>InvalidOperation\<close> and nothing is appended.
\<close>

lemma append_transactions_overflow:
  "amount (hd ex_large_transactions) = 9999999999
   \<and> max_digits_ok (amount (hd ex_large_transactions))
   \<and> expected_balance (programs db_enrolled) [] (hd ex_large_transactions) = 10000224999
   \<and> append_transactions db_enrolled ex_large_transactions = Inl InvalidOperation"
  by (simp add: ex_defs ex_large_transactions_def finance_defs expected_balance_def Let_def)

text \<open>
  C2. Starting from an empty ledger table, appending any sequence of transactions that
  each name a program and carry one of the four transaction types, whose amounts and
  expected balances fit the decimal columns (\<open>max_digits=10\<close>), succeeds; the stored
  rows are the appended transactions in order; and for every student and program the
  \<open>K\<close>th record of that pair has \<open>balance_after\<close> equal to the program's total fee
  minus the signed sum of the amounts of records 1 to \<open>K\<close> of the pair (payments and
  refunds count positive, fees and adjustments negative), where the total fee is
  \<open>(tuition_fee + exam_fee + other_fees) * duration + registration_fee\<close>.
\<close>

theorem append_transactions_balance:
  assumes "finance_records db = []"
      and "list_all (\<lambda>r. fr_program r \<noteq> None \<and> transaction_type r \<in> set TRANSACTION_TYPES) rs"
      and "amounts_fit (programs db) [] rs"
  shows "\<exists>db'. append_transactions db rs = Inr db'
           \<and> map entry (finance_records db') = map entry rs
           \<and> (\<forall>s p K. K < length (ledger db' s p) \<longrightarrow>
                 balance_after (ledger db' s p ! K) =
                   ((tuition_fee (programs db p) + exam_fee (programs db p) + other_fees (programs db p))
                       * duration (programs db p) + registration_fee (programs db p))
                   - sum_list (map signed_amount (take (Suc K) (ledger db' s p))))"
proof -
  from assms(1) have "ledger_ok db" by (simp add: ledger_ok_def ledger_def)
  moreover from assms(1) have "map entry (finance_records db) = map entry []" by simp
  ultimately obtain db' where
    a: "append_transactions db rs = Inr db'" and ok: "ledger_ok db'"
    and P: "programs db' = programs db"
    and e: "map entry (finance_records db') = map entry (finance_records db) @ map entry rs"
    using append_transactions_ok [OF _ assms(2) _ assms(3)] by blast
  from ok P have "\<forall>s p K. K < length (ledger db' s p) \<longrightarrow>
                 balance_after (ledger db' s p ! K) =
                   ((tuition_fee (programs db p) + exam_fee (programs db p) + other_fees (programs db p))
                       * duration (programs db p) + registration_fee (programs db p))
                   - sum_list (map signed_amount (take (Suc K) (ledger db' s p)))"
    by (simp add: ledger_ok_def total_program_fee_def total_fee_per_semester_def)
  with a e assms(1) show ?thesis by simp
qed

theorem append_transactions_balance_witness:
  "finance_records db_enrolled = []
   \<and> amounts_fit (programs db_enrolled) [] ex_transactions
   \<and> total_program_fee ex_program = 225000
   \<and> (\<exists>db'. append_transactions db_enrolled ex_transactions = Inr db'
            \<and> map balance_after (ledger db' 7 1) = [175000, 195000])"
proof -
  have h1: "finance_records db_enrolled = []" by (simp add: ex_defs)
  have h2: "list_all (\<lambda>r. fr_program r \<noteq> None \<and> transaction_type r \<in> set TRANSACTION_TYPES)
              ex_transactions"
    by (simp add: ex_defs TRANSACTION_TYPES_def)
  have h3: "amounts_fit (programs db_enrolled) [] ex_transactions"
    by (simp add: ex_defs finance_defs expected_balance_def)
  from append_transactions_balance [OF h1 h2 h3] obtain db' where
    a: "append_transactions db_enrolled ex_transactions = Inr db'" by blast
  then have "map balance_after (ledger db' 7 1) = [175000, 195000]"
    by (auto simp: ex_defs finance_defs Let_def)
  with a h1 h3 show ?thesis by (simp add: ex_program_def finance_defs)
qed

section \<open>Program progress\<close>

lemma credits_completed_spec:
  assumes "list_all (\<lambda>e. counts_towards db pe e \<longrightarrow> credits_earned e \<noteq> Some 0) (enrollments db)"
  shows "credits_completed db pe = completedCredits db pe"
proof -
  have "list_all (\<lambda>e. counts_towards db pe e \<longrightarrow> credits_earned e \<noteq> Some 0) rows \<Longrightarrow>
     sum_list (map (\<lambda>(enrollment, offering).
                      case credits_earned enrollment of
                        None \<Rightarrow> credits (courses db (co_course offering))
                      | Some n \<Rightarrow> if n \<noteq> 0 then n
                                  else credits (courses db (co_course offering)))
       (List.map_filter
       (\<lambda>e. case offerings db (course_offering e) of
               None \<Rightarrow> None
             | Some offering \<Rightarrow>
                 if student e = pe_student pe
                    \<and> co_course offering \<in> set (map pc_course
                          (filter (\<lambda>c. pc_program c = pe_program pe) (curriculum db)))
                    \<and> status e = ''completed''
                 then Some (e, offering) else None) rows))
   = (\<Sum>e \<leftarrow> filter (counts_towards db pe) rows.
        case credits_earned e of
          Some n \<Rightarrow> n
        | None \<Rightarrow> (case enrollment_course db e of
                     Some c \<Rightarrow> credits (courses db c)
                   | None \<Rightarrow> 0))" for rows
  proof (induction rows)
    case Nil
    then show ?case by (simp add: List.map_filter_simps)
  next
    case (Cons e rows)
    then show ?case
      by (cases "offerings db (course_offering e)"; cases "credits_earned e")
         (auto simp: List.map_filter_simps counts_towards_def enrollment_course_def
                     list_ex_iff image_iff)
  qed
  from this [OF assms] show ?thesis
    by (simp add: credits_completed_def completed_enrollments_def completedCredits_def)
qed

text \<open>
  C8, as the claim states it, fails twice. With \<open>total_credits = -10\<close> and 5 completed
  credits the code returns the integer 0, though \<open>total_credits\<close> is not 0 and
  \<open>100 * 5 / -10\<close> is \<open>-50\<close>. And a completed enrollment whose \<open>credits_earned\<close> is
  present and 0 counts with the course's 3 credits, where the claim's sum is 0.
\<close>

theorem progress_percentage_counterexample:
  "total_credits (programs (db_completed (Some 5) (- 10)) 1) \<noteq> 0
   \<and> completedCredits (db_completed (Some 5) (- 10)) ex_program_enrollment = 5
   \<and> progress_percentage exact_truediv exact_mul (db_completed (Some 5) (- 10)) ex_program_enrollment
       = PyInt 0
   \<and> exact_mul (exact_truediv 5 (- 10)) 100 = - 50
   \<and> completedCredits (db_completed (Some 0) 120) ex_program_enrollment = 0
   \<and> credits_completed (db_completed (Some 0) 120) ex_program_enrollment = 3"
  by (simp add: ex_defs progress_defs)

text \<open>
  C8, amended. \<open>progress_percentage\<close> returns 0 when the program's \<open>total_credits\<close> is
  0 or negative, whatever the enrollments are. Otherwise it returns the float
  \<open>(completedCredits / total_credits) * 100\<close>, where \<open>completedCredits\<close> sums, over the
  student's enrollments with status completed whose course appears in the program's
  curriculum, the enrollment's \<open>credits_earned\<close> when present and the course's static
  credits when absent; this when none of the enrollments the sum ranges over has a
  \<open>credits_earned\<close> that is present and 0.
\<close>

theorem progress_percentage_value:
  "if total_credits (programs db (pe_program pe)) \<le> 0
   then progress_percentage truediv mul db pe = PyInt 0
   else (list_all (\<lambda>e. counts_towards db pe e \<longrightarrow> credits_earned e \<noteq> Some 0) (enrollments db)
         \<longrightarrow> progress_percentage truediv mul db pe =
               PyFloat (mul (truediv (completedCredits db pe)
                                     (total_credits (programs db (pe_program pe)))) 100))"
  by (simp add: progress_percentage_def credits_completed_spec)

theorem progress_percentage_value_witness:
  "credits_earned (ex_completed None) \<noteq> Some 0
   \<and> completedCredits (db_completed None 6) ex_program_enrollment = 3
   \<and> progress_percentage exact_truediv exact_mul (db_completed None 6) ex_program_enrollment
       = PyFloat 50
   \<and> credits_earned (ex_completed (Some 0)) = Some 0
   \<and> progress_percentage exact_truediv exact_mul (db_completed (Some 0) 0) ex_program_enrollment
       = PyInt 0"
proof -
  have h: "list_all (\<lambda>e. counts_towards (db_completed None 6) ex_program_enrollment e
                          \<longrightarrow> credits_earned e \<noteq> Some 0) (enrollments (db_completed None 6))"
    by (simp add: ex_defs)
  have c: "completedCredits (db_completed None 6) ex_program_enrollment = 3"
    by (simp add: ex_defs progress_defs)
  have t: "total_credits (programs (db_completed None 6) (pe_program ex_program_enrollment)) = 6"
          "total_credits (programs (db_completed (Some 0) 0) (pe_program ex_program_enrollment)) = 0"
    by (simp_all add: ex_defs)
  from progress_percentage_value
         [of "db_completed None 6" ex_program_enrollment exact_truediv exact_mul]
       progress_percentage_value
         [of "db_completed (Some 0) 0" ex_program_enrollment exact_truediv exact_mul]
       h c t
  show ?thesis by (simp add: ex_completed_def exact_truediv_def exact_mul_def)
qed

end
